theory Spec2Isabelle
  imports Main "HOL-Library.Word"
begin

section \<open>The bee execution context (package bh)\<close>

text \<open>
  The receiver context of a local bee: message emission (\<open>Emit\<close>, \<open>SendToBee\<close>,
  \<open>SendToCellKey\<close>, \<open>ReplyTo\<close>) and the per-bee transaction machine (\<open>BeginTx\<close>,
  \<open>CommitTx\<close>, \<open>AbortTx\<close>). A bee handles one message at a time, so every method is a
  function from the bee before the call to the result and the bee after it.
\<close>

subsection \<open>Data\<close>

text \<open>A Go \<open>error\<close> value; \<open>nil\<close> is \<open>None\<close> of \<open>error option\<close>.\<close>

datatype error = Err string

text \<open>
  A method either returns to its caller or ends the whole program through
  \<open>glog.Fatal\<close>.
\<close>

datatype 'a outcome = Returns 'a | Fatal

text \<open>
  Modelled from the spec: the declaration of BeeID is not among the sources. The spec
  gives it as app name, instance id and hosting node; \<open>BeeID{}\<close> is the record of
  zero values.
\<close>

record BeeID =
  HiveID :: string
  AppName :: string
  ID :: nat

definition nilBeeID :: BeeID where
  "nilBeeID = \<lparr>HiveID = [], AppName = [], ID = 0\<rparr>"

text \<open>
  Modelled from the spec: the struct \<open>msg\<close> is not among the sources. The spec lists
  Type, From, To, Data and the NoReply flag; the methods \<open>From()\<close> and \<open>NoReply()\<close>
  used by \<open>ReplyTo\<close> read the fields of the same name. The payload type \<open>'d\<close> is Go's
  \<open>interface{}\<close>.
\<close>

record 'd msg =
  MsgType :: string
  MsgFrom :: BeeID
  MsgTo :: BeeID
  MsgData :: 'd
  MsgNoReply :: bool

definition From :: "'d msg \<Rightarrow> BeeID" where
  "From m = MsgFrom m"

definition NoReply :: "'d msg \<Rightarrow> bool" where
  "NoReply m = MsgNoReply m"

text \<open>
  Modelled from the spec: the declarations of the transaction record and of its
  counter types are not among the sources. The spec gives Status in {Closed, Open},
  Generation, Seq, Msgs and Ops. \<open>Seq\<close> is incremented with Go's \<open>++\<close>, which is
  defined on fixed-width numbers only and wraps around; it is taken as an unsigned
  64-bit counter, and so is the generation. \<open>'o\<close> is the type of one state operation.
\<close>

datatype TxStatus = TxClosed | TxOpen

type_synonym TxSeq = "64 word"
type_synonym TxGeneration = "64 word"

record ('d, 'o) Tx =
  Status :: TxStatus
  Generation :: TxGeneration
  Seq :: TxSeq
  Msgs :: "'d msg list"
  Ops :: "'o list"

text \<open>
  Modelled from the spec: the three methods of the transaction record that the bee
  calls. A transaction is Open or not; a buffered message goes to the end of Msgs;
  a reset discards Msgs and Ops and closes the transaction, keeping the per-bee
  counter and the generation.
\<close>

definition IsOpen :: "('d, 'o) Tx \<Rightarrow> bool" where
  "IsOpen t = (Status t = TxOpen)"

definition AddMsg :: "('d, 'o) Tx \<Rightarrow> 'd msg \<Rightarrow> ('d, 'o) Tx" where
  "AddMsg t m = t\<lparr>Msgs := Msgs t @ [m]\<rparr>"

definition Reset :: "('d, 'o) Tx \<Rightarrow> ('d, 'o) Tx" where
  "Reset t = t\<lparr>Status := TxClosed, Msgs := [], Ops := []\<rparr>"

record BeeColony =
  ColonyGeneration :: TxGeneration

record App =
  ReplicationFactor :: int

text \<open>
  Everything the bee does to the outside, in the order it does it: a message handed to
  the hive (\<open>hive.emitMsg\<close>), a call of the state layer, a transaction submitted to
  the replication collaborator, a commit notification.
\<close>

datatype ('d, 'o) effect =
    Emitted "'d msg"
  | StateBegin
  | StateCommit
  | StateAbort
  | Replicated "('d, 'o) Tx"
  | Notified TxSeq

text \<open>
  The local bee. \<open>state\<close> is the pointer \<open>b.state\<close> (\<open>None\<close> is nil) to the state
  layer's value of type \<open>'s\<close>; \<open>repl\<close> is whatever the replication collaborator
  knows; \<open>effects\<close> is the log of effects so far.
\<close>

record ('d, 'o, 's, 'r) localBee =
  beeID :: BeeID
  tx :: "('d, 'o) Tx"
  state :: "'s option"
  beeColony :: BeeColony
  app :: App
  repl :: 'r
  effects :: "('d, 'o) effect list"

text \<open>
  The collaborators whose code is outside the sources, as parameters: the message
  constructor, the state layer (\<open>newState\<close> and the methods of \<open>TxState\<close>) and the
  replication service. Each method returns its Go error and the collaborator's new
  value. \<open>replicateTx\<close> reads the transaction it is given and does not write to it.
\<close>

record ('d, 'o, 's, 'r) collab =
  newMsgFromData :: "'d \<Rightarrow> BeeID \<Rightarrow> BeeID \<Rightarrow> 'd msg"
  newState :: "App \<Rightarrow> 's"
  state_BeginTx :: "'s \<Rightarrow> error option \<times> 's"
  state_CommitTx :: "'s \<Rightarrow> error option \<times> 's"
  state_AbortTx :: "'s \<Rightarrow> error option \<times> 's"
  state_Tx :: "'s \<Rightarrow> 'o list"
  replicate :: "('d, 'o) Tx \<Rightarrow> 'r \<Rightarrow> error option \<times> 'r"
  notifyCommit :: "TxSeq \<Rightarrow> 'r \<Rightarrow> error option \<times> 'r"

subsection \<open>Helpers of the bee\<close>

text \<open>\<open>b.id()\<close>, the bee's own BeeID.\<close>

definition id_of :: "('d, 'o, 's, 'r) localBee \<Rightarrow> BeeID" where
  "id_of b = beeID b"

text \<open>
  Modelled from the spec: \<open>colonyUnsafe\<close> is not among the sources; the spec has
  CommitTx refresh the generation from the bee's current colony.
\<close>

definition colonyUnsafe :: "('d, 'o, 's, 'r) localBee \<Rightarrow> BeeColony" where
  "colonyUnsafe b = beeColony b"

definition record_effect ::
  "('d, 'o) effect \<Rightarrow> ('d, 'o, 's, 'r) localBee \<Rightarrow> ('d, 'o, 's, 'r) localBee" where
  "record_effect ev b = b\<lparr>effects := effects b @ [ev]\<rparr>"

text \<open>\<open>txState\<close>: the state is created on first use.\<close>

definition txState ::
  "('d, 'o, 's, 'r) collab \<Rightarrow> ('d, 'o, 's, 'r) localBee \<Rightarrow> 's \<times> ('d, 'o, 's, 'r) localBee" where
  "txState c b =
     (case state b of
        None \<Rightarrow> (newState c (app b), b\<lparr>state := Some (newState c (app b))\<rparr>)
      | Some s \<Rightarrow> (s, b))"

text \<open>The three transactional calls on \<open>b.txState()\<close>, each logged as an effect.\<close>

definition txState_BeginTx ::
  "('d, 'o, 's, 'r) collab \<Rightarrow> ('d, 'o, 's, 'r) localBee
     \<Rightarrow> error option \<times> ('d, 'o, 's, 'r) localBee" where
  "txState_BeginTx c b =
     (let (s, b1) = txState c b; (r, s') = state_BeginTx c s
      in (r, record_effect StateBegin (b1\<lparr>state := Some s'\<rparr>)))"

definition txState_CommitTx ::
  "('d, 'o, 's, 'r) collab \<Rightarrow> ('d, 'o, 's, 'r) localBee
     \<Rightarrow> error option \<times> ('d, 'o, 's, 'r) localBee" where
  "txState_CommitTx c b =
     (let (s, b1) = txState c b; (r, s') = state_CommitTx c s
      in (r, record_effect StateCommit (b1\<lparr>state := Some s'\<rparr>)))"

definition txState_AbortTx ::
  "('d, 'o, 's, 'r) collab \<Rightarrow> ('d, 'o, 's, 'r) localBee
     \<Rightarrow> error option \<times> ('d, 'o, 's, 'r) localBee" where
  "txState_AbortTx c b =
     (let (s, b1) = txState c b; (r, s') = state_AbortTx c s
      in (r, record_effect StateAbort (b1\<lparr>state := Some s'\<rparr>)))"

definition replicateTx ::
  "('d, 'o, 's, 'r) collab \<Rightarrow> ('d, 'o, 's, 'r) localBee
     \<Rightarrow> error option \<times> ('d, 'o, 's, 'r) localBee" where
  "replicateTx c b =
     (let (r, w) = replicate c (tx b) (repl b)
      in (r, record_effect (Replicated (tx b)) (b\<lparr>repl := w\<rparr>)))"

definition notifyCommitTx ::
  "('d, 'o, 's, 'r) collab \<Rightarrow> TxSeq \<Rightarrow> ('d, 'o, 's, 'r) localBee
     \<Rightarrow> error option \<times> ('d, 'o, 's, 'r) localBee" where
  "notifyCommitTx c n b =
     (let (r, w) = notifyCommit c n (repl b)
      in (r, record_effect (Notified n) (b\<lparr>repl := w\<rparr>)))"

subsection \<open>Emitting messages\<close>

definition doEmit ::
  "('d, 'o, 's, 'r) localBee \<Rightarrow> 'd msg \<Rightarrow> ('d, 'o, 's, 'r) localBee" where
  "doEmit b m = record_effect (Emitted m) b"

definition bufferOrEmit ::
  "('d, 'o, 's, 'r) localBee \<Rightarrow> 'd msg \<Rightarrow> ('d, 'o, 's, 'r) localBee" where
  "bufferOrEmit b m =
     (if \<not> IsOpen (tx b) then doEmit b m
      else b\<lparr>tx := AddMsg (tx b) m\<rparr>)"

definition Emit ::
  "('d, 'o, 's, 'r) collab \<Rightarrow> ('d, 'o, 's, 'r) localBee \<Rightarrow> 'd \<Rightarrow> ('d, 'o, 's, 'r) localBee" where
  "Emit c b msgData = bufferOrEmit b (newMsgFromData c msgData (id_of b) nilBeeID)"

text \<open>
  \<open>glog.Fatal\<close> and \<open>glog.Fatalf\<close> log their message and exit the program; the
  statements after one are run only by \<open>and_then\<close> on an outcome that returned.
\<close>

definition glog_Fatal :: "string \<Rightarrow> 'b \<Rightarrow> 'a outcome \<times> 'b" where
  "glog_Fatal text b = (Fatal, b)"

definition and_then :: "unit outcome \<times> 'b \<Rightarrow> ('b \<Rightarrow> 'a outcome \<times> 'b) \<Rightarrow> 'a outcome \<times> 'b" where
  "and_then r f = (case r of (Fatal, b) \<Rightarrow> (Fatal, b) | (Returns u, b) \<Rightarrow> f b)"

definition SendToCellKey ::
  "('d, 'o, 's, 'r) collab \<Rightarrow> ('d, 'o, 's, 'r) localBee \<Rightarrow> 'd \<Rightarrow> string \<Rightarrow> 'k
     \<Rightarrow> unit outcome \<times> ('d, 'o, 's, 'r) localBee" where
  "SendToCellKey c b msgData to dk =
     and_then (glog_Fatal ''Sendto is not implemented.'' b)
       (\<lambda>b. (Returns (), bufferOrEmit b (newMsgFromData c msgData (id_of b) nilBeeID)))"

definition SendToBee ::
  "('d, 'o, 's, 'r) collab \<Rightarrow> ('d, 'o, 's, 'r) localBee \<Rightarrow> 'd \<Rightarrow> BeeID
     \<Rightarrow> ('d, 'o, 's, 'r) localBee" where
  "SendToBee c b msgData to = bufferOrEmit b (newMsgFromData c msgData (id_of b) to)"

definition ReplyTo ::
  "('d, 'o, 's, 'r) collab \<Rightarrow> ('d, 'o, 's, 'r) localBee \<Rightarrow> 'd msg \<Rightarrow> 'd
     \<Rightarrow> error option \<times> ('d, 'o, 's, 'r) localBee" where
  "ReplyTo c b thatMsg replyData =
     (if NoReply thatMsg then (Some (Err ''Cannot reply to this message.''), b)
      else (None, SendToBee c b replyData (From thatMsg)))"

subsection \<open>The transaction machine\<close>

definition BeginTx ::
  "('d, 'o, 's, 'r) collab \<Rightarrow> ('d, 'o, 's, 'r) localBee
     \<Rightarrow> error option \<times> ('d, 'o, 's, 'r) localBee" where
  "BeginTx c b =
     (if IsOpen (tx b) then (Some (Err ''Another tx is open.''), b)
      else
        (case txState_BeginTx c b of
           (Some err, b1) \<Rightarrow> (Some err, b1)
         | (None, b1) \<Rightarrow>
             (None,
              b1\<lparr>tx := (tx b1)\<lparr>Status := TxOpen,
                                Generation := ColonyGeneration (beeColony b1),
                                Seq := Seq (tx b1) + 1\<rparr>\<rparr>)))"

text \<open>The loop of \<open>emitTxMsgs\<close> over the buffered messages, first to last.\<close>

primrec emitAll ::
  "('d, 'o, 's, 'r) localBee \<Rightarrow> 'd msg list \<Rightarrow> ('d, 'o, 's, 'r) localBee" where
  "emitAll b [] = b"
| "emitAll b (m # ms) = emitAll (doEmit b m) ms"

definition emitTxMsgs :: "('d, 'o, 's, 'r) localBee \<Rightarrow> ('d, 'o, 's, 'r) localBee" where
  "emitTxMsgs b = (if Msgs (tx b) = [] then b else emitAll b (Msgs (tx b)))"

text \<open>
  \<open>doCommitTx\<close>: the deferred \<open>b.tx.Reset()\<close> runs after the state layer's commit has
  produced the value to return.
\<close>

definition doCommitTx ::
  "('d, 'o, 's, 'r) collab \<Rightarrow> ('d, 'o, 's, 'r) localBee
     \<Rightarrow> error option \<times> ('d, 'o, 's, 'r) localBee" where
  "doCommitTx c b =
     (let b1 = emitTxMsgs b; (r, b2) = txState_CommitTx c b1
      in (r, b2\<lparr>tx := Reset (tx b2)\<rparr>))"

definition AbortTx ::
  "('d, 'o, 's, 'r) collab \<Rightarrow> ('d, 'o, 's, 'r) localBee
     \<Rightarrow> error option \<times> ('d, 'o, 's, 'r) localBee" where
  "AbortTx c b =
     (if \<not> IsOpen (tx b) then (None, b)
      else txState_AbortTx c (b\<lparr>tx := Reset (tx b)\<rparr>))"

text \<open>
  \<open>CommitTx\<close>, statement by statement. The result of the first \<open>doCommitTx\<close> (taken
  when the replication factor is below 2) is dropped and control falls through to
  the statements after the \<open>if\<close>. The result of \<open>AbortTx\<close> and of
  \<open>notifyCommitTx\<close> is only logged.
\<close>

definition CommitTx ::
  "('d, 'o, 's, 'r) collab \<Rightarrow> ('d, 'o, 's, 'r) localBee
     \<Rightarrow> error option outcome \<times> ('d, 'o, 's, 'r) localBee" where
  "CommitTx c b =
     (if \<not> IsOpen (tx b) then (Returns None, b)
      else
        (let b1 = b\<lparr>tx := (tx b)\<lparr>Generation := ColonyGeneration (colonyUnsafe b)\<rparr>\<rparr>;
             b2 = (if ReplicationFactor (app b1) < 2 then snd (doCommitTx c b1) else b1);
             (s, b3) = txState c b2;
             b4 = b3\<lparr>tx := (tx b3)\<lparr>Ops := state_Tx c s\<rparr>\<rparr>
         in case replicateTx c b4 of
              (Some err, b5) \<Rightarrow> (Returns (Some err), snd (AbortTx c b5))
            | (None, b5) \<Rightarrow>
                (case doCommitTx c b5 of
                   (Some err, b6) \<Rightarrow>
                     glog_Fatal ''Error in committing the transaction'' b6
                 | (None, b6) \<Rightarrow>
                     (Returns None, snd (notifyCommitTx c (Seq (tx b6)) b6)))))"

subsection \<open>Reading the log of effects\<close>

text \<open>The messages handed to the hive, in the order they were handed over.\<close>

fun emitted :: "('d, 'o) effect list \<Rightarrow> 'd msg list" where
  "emitted [] = []"
| "emitted (Emitted m # es) = m # emitted es"
| "emitted (_ # es) = emitted es"

text \<open>The transactions submitted to the replication collaborator.\<close>

fun replicated :: "('d, 'o) effect list \<Rightarrow> ('d, 'o) Tx list" where
  "replicated [] = []"
| "replicated (Replicated t # es) = t # replicated es"
| "replicated (_ # es) = replicated es"

text \<open>The effects of one call: those logged after the bee \<open>b\<close> by the time of \<open>b'\<close>.\<close>

definition since ::
  "('d, 'o, 's, 'r) localBee \<Rightarrow> ('d, 'o, 's, 'r) localBee \<Rightarrow> ('d, 'o) effect list" where
  "since b b' = drop (length (effects b)) (effects b')"

subsection \<open>Sequences of calls\<close>

text \<open>
  What handler code can call on its context, and the bee's life as a sequence of such
  calls. A call that ends the program ends the sequence.
\<close>

datatype 'd call =
    CallBeginTx
  | CallCommitTx
  | CallAbortTx
  | CallEmit 'd
  | CallSendToBee 'd BeeID
  | CallSendToCellKey 'd string string
  | CallReplyTo "'d msg" 'd

fun step ::
  "('d, 'o, 's, 'r) collab \<Rightarrow> 'd call \<Rightarrow> ('d, 'o, 's, 'r) localBee
     \<Rightarrow> error option outcome \<times> ('d, 'o, 's, 'r) localBee" where
  "step c CallBeginTx b = (case BeginTx c b of (r, b') \<Rightarrow> (Returns r, b'))"
| "step c CallCommitTx b = CommitTx c b"
| "step c CallAbortTx b = (case AbortTx c b of (r, b') \<Rightarrow> (Returns r, b'))"
| "step c (CallEmit d) b = (Returns None, Emit c b d)"
| "step c (CallSendToBee d to) b = (Returns None, SendToBee c b d to)"
| "step c (CallSendToCellKey d to dk) b =
     (case SendToCellKey c b d to dk of
        (Fatal, b') \<Rightarrow> (Fatal, b')
      | (Returns u, b') \<Rightarrow> (Returns None, b'))"
| "step c (CallReplyTo m d) b = (case ReplyTo c b m d of (r, b') \<Rightarrow> (Returns r, b'))"

fun run ::
  "('d, 'o, 's, 'r) collab \<Rightarrow> 'd call list \<Rightarrow> ('d, 'o, 's, 'r) localBee
     \<Rightarrow> ('d call \<times> error option outcome \<times> ('d, 'o, 's, 'r) localBee) list" where
  "run c [] b = []"
| "run c (k # ks) b =
     (case step c k b of
        (Fatal, b') \<Rightarrow> [(k, Fatal, b')]
      | (Returns r, b') \<Rightarrow> (k, Returns r, b') # run c ks b')"

text \<open>The Seq of every transaction that a successful BeginTx of the run started.\<close>

fun begun_seqs ::
  "('d call \<times> error option outcome \<times> ('d, 'o, 's, 'r) localBee) list \<Rightarrow> TxSeq list" where
  "begun_seqs [] = []"
| "begun_seqs ((CallBeginTx, Returns None, b') # h) = Seq (tx b') # begun_seqs h"
| "begun_seqs (_ # h) = begun_seqs h"

fun count_begins :: "'d call list \<Rightarrow> nat" where
  "count_begins [] = 0"
| "count_begins (CallBeginTx # ks) = Suc (count_begins ks)"
| "count_begins (_ # ks) = count_begins ks"

section \<open>The stage's network server (package actor)\<close>

text \<open>
  \<open>handleConn\<close> serves one accepted connection. The types of the package that are not
  among the sources are type parameters: \<open>'i\<close> the receiver id inside a RcvrId, \<open>'a\<close>
  an actor, \<open>'rc\<close> a receiver, \<open>'m\<close> a message, \<open>'h\<close> a handler.
\<close>

record 'i RcvrId =
  ActorName :: string
  RcvrId_Id :: 'i

text \<open>
  What \<open>handleConn\<close> reads of the stage: \<open>s.actor(name)\<close>; the answer of the actor's
  control loop to \<open>routineCmd{findRcvr, id, resCh}\<close> (\<open>None\<close> is nil); the table
  \<open>s.mappers\<close>, each entry given as the name of the entry's actor and its handler, an
  absent key being the empty list; and \<open>m.Type()\<close>.
\<close>

record ('i, 'a, 'rc, 'm, 'h) stage =
  actor :: "string \<Rightarrow> error + 'a"
  findRcvr :: "'a \<Rightarrow> 'i \<Rightarrow> 'rc option"
  mappers :: "string \<Rightarrow> (string \<times> 'h) list"
  msg_Type :: "'m \<Rightarrow> string"

text \<open>
  What the server does on a connection, in order: a value written back with
  \<open>enc.Encode\<close>, a message and handler put on a receiver's queue, the deferred
  \<open>conn.Close()\<close>.
\<close>

datatype ('rc, 'm, 'h) conn_event = Wrote bool | Enque 'rc 'm 'h | Closed

text \<open>
  The \<open>for\<close> loop over the records the client sends after the handshake. Each element of
  the list is the result of one \<open>dec.Decode(&m)\<close>; at the end of what the client sent,
  Decode fails. \<open>handlers\<close> is the per-session cache.
\<close>

fun handleConn_loop ::
  "('i, 'a, 'rc, 'm, 'h) stage \<Rightarrow> 'i RcvrId \<Rightarrow> 'rc \<Rightarrow> (string \<rightharpoonup> 'h list)
     \<Rightarrow> (error + 'm) list \<Rightarrow> ('rc, 'm, 'h) conn_event list" where
  "handleConn_loop s rid rcvr handlers [] = []"
| "handleConn_loop s rid rcvr handlers (Inl err # rest) = []"
| "handleConn_loop s rid rcvr handlers (Inr m # rest) =
     (case handlers (msg_Type s m) of
        Some hs \<Rightarrow> map (Enque rcvr m) hs @ handleConn_loop s rid rcvr handlers rest
      | None \<Rightarrow>
          (let hs = map snd (filter (\<lambda>mh. fst mh = ActorName rid) (mappers s (msg_Type s m)))
           in map (Enque rcvr m) hs
              @ handleConn_loop s rid rcvr (handlers(msg_Type s m \<mapsto> hs)) rest))"

text \<open>
  \<open>var id RcvrId; dec.Decode(&id)\<close>: the error of this first Decode is dropped, so
  when it fails (\<open>None\<close>) \<open>id\<close> keeps the zero value it was declared with.
\<close>

definition first_RcvrId :: "('i::zero) RcvrId option \<Rightarrow> 'i RcvrId" where
  "first_RcvrId hello =
     (case hello of None \<Rightarrow> \<lparr>ActorName = [], RcvrId_Id = 0\<rparr> | Some r \<Rightarrow> r)"

text \<open>
  \<open>handleConn\<close>: resolve the actor, then the receiver through the actor's control
  loop; acknowledge; serve the records. \<open>conn.Close()\<close> is deferred, so it is last on
  every path.
\<close>

definition handleConn ::
  "('i::zero, 'a, 'rc, 'm, 'h) stage \<Rightarrow> 'i RcvrId option \<Rightarrow> (error + 'm) list
     \<Rightarrow> ('rc, 'm, 'h) conn_event list" where
  "handleConn s hello body =
     (let rid = first_RcvrId hello
      in case actor s (ActorName rid) of
           Inl err \<Rightarrow> [Closed]
         | Inr a \<Rightarrow>
             (case findRcvr s a (RcvrId_Id rid) of
                None \<Rightarrow> [Closed]
              | Some rcvr \<Rightarrow>
                  Wrote True # handleConn_loop s rid rcvr Map.empty body @ [Closed]))"

text \<open>Whether the server resolves a RcvrId to a receiver, and to which.\<close>

definition resolves :: "('i, 'a, 'rc, 'm, 'h) stage \<Rightarrow> 'i RcvrId \<Rightarrow> 'rc option" where
  "resolves s rid =
     (case actor s (ActorName rid) of
        Inl err \<Rightarrow> None
      | Inr a \<Rightarrow> findRcvr s a (RcvrId_Id rid))"

section \<open>Sample collaborators\<close>

text \<open>
  Modelled from the spec: a state layer as the spec describes its contract, a
  key-value mapping whose writes since BeginTx are held back as an ordered log, applied
  by CommitTx and dropped by AbortTx. It serves as the concrete state layer of the
  examples below; the theorems hold for every collaborator.
\<close>

record kv_state =
  committed :: "(string \<times> string) list"
  pending :: "(string \<times> string) list"

definition kv_BeginTx :: "kv_state \<Rightarrow> error option \<times> kv_state" where
  "kv_BeginTx s = (None, s\<lparr>pending := []\<rparr>)"

definition kv_CommitTx :: "kv_state \<Rightarrow> error option \<times> kv_state" where
  "kv_CommitTx s = (None, \<lparr>committed = committed s @ pending s, pending = []\<rparr>)"

definition kv_AbortTx :: "kv_state \<Rightarrow> error option \<times> kv_state" where
  "kv_AbortTx s = (None, s\<lparr>pending := []\<rparr>)"

definition plain_msg :: "string \<Rightarrow> BeeID \<Rightarrow> BeeID \<Rightarrow> string msg" where
  "plain_msg d f t = \<lparr>MsgType = ''string'', MsgFrom = f, MsgTo = t, MsgData = d, MsgNoReply = False\<rparr>"

text \<open>
  A replication collaborator that counts what it accepted, and one that never reaches
  its quorum.
\<close>

definition sample_collab ::
  "(string, string \<times> string, kv_state, nat) collab" where
  "sample_collab =
     \<lparr>newMsgFromData = plain_msg,
      newState = (\<lambda>a. \<lparr>committed = [], pending = []\<rparr>),
      state_BeginTx = kv_BeginTx,
      state_CommitTx = kv_CommitTx,
      state_AbortTx = kv_AbortTx,
      state_Tx = pending,
      replicate = (\<lambda>t n. (None, Suc n)),
      notifyCommit = (\<lambda>q n. (None, n))\<rparr>"

definition failing_collab ::
  "(string, string \<times> string, kv_state, nat) collab" where
  "failing_collab = sample_collab\<lparr>replicate := (\<lambda>t n. (Some (Err ''no quorum''), n))\<rparr>"

definition bee_A :: BeeID where
  "bee_A = \<lparr>HiveID = ''hive1'', AppName = ''Counter'', ID = 1\<rparr>"

definition bee_B :: BeeID where
  "bee_B = \<lparr>HiveID = ''hive2'', AppName = ''Counter'', ID = 2\<rparr>"

text \<open>
  A bee with no transaction yet, whose app has replication factor \<open>n\<close> and whose state
  holds one committed entry.
\<close>

definition sample_bee :: "int \<Rightarrow> (string, string \<times> string, kv_state, nat) localBee" where
  "sample_bee n =
     \<lparr>beeID = bee_A,
      tx = \<lparr>Status = TxClosed, Generation = 0, Seq = 0, Msgs = [], Ops = []\<rparr>,
      state = Some \<lparr>committed = [(''x'', ''0'')], pending = []\<rparr>,
      beeColony = \<lparr>ColonyGeneration = 3\<rparr>,
      app = \<lparr>ReplicationFactor = n\<rparr>,
      repl = 0,
      effects = []\<rparr>"

text \<open>
  The same bee inside an Open transaction that has buffered the messages A (emitted)
  and B (sent to \<open>bee_B\<close>) and written the key x.
\<close>

definition open_bee :: "int \<Rightarrow> (string, string \<times> string, kv_state, nat) localBee" where
  "open_bee n =
     (sample_bee n)
       \<lparr>tx := \<lparr>Status = TxOpen, Generation = 3, Seq = 1,
               Msgs = [plain_msg ''A'' bee_A nilBeeID, plain_msg ''B'' bee_A bee_B], Ops = []\<rparr>,
        state := Some \<lparr>committed = [(''x'', ''0'')], pending = [(''x'', ''1'')]\<rparr>,
        effects := [StateBegin]\<rparr>"

text \<open>A bee whose counter is one step below the largest 64-bit value.\<close>

definition late_bee :: "(string, string \<times> string, kv_state, nat) localBee" where
  "late_bee = (sample_bee 1)\<lparr>tx := (tx (sample_bee 1))\<lparr>Seq := - 2\<rparr>\<rparr>"

text \<open>A message that must not be answered.\<close>

definition silent_msg :: "string msg" where
  "silent_msg = (plain_msg ''ping'' bee_B bee_A)\<lparr>MsgNoReply := True\<rparr>"

text \<open>A stage with one actor, Counter, whose only receiver has id 7.\<close>

definition sample_stage :: "(nat, string, string, string, string) stage" where
  "sample_stage =
     \<lparr>actor = (\<lambda>n. if n = ''Counter'' then Inr ''Counter'' else Inl (Err ''no actor'')),
      findRcvr = (\<lambda>a i. if i = 7 then Some ''bee7'' else None),
      mappers = (\<lambda>t. if t = ''Incr'' then [(''Counter'', ''h1''), (''Other'', ''h2''), (''Counter'', ''h3'')]
                      else []),
      msg_Type = (\<lambda>m. m)\<rparr>"

section \<open>Properties of the bee execution context\<close>

subsection \<open>What each helper does to the bee\<close>

lemma emitAll_eq: "emitAll b ms = b\<lparr>effects := effects b @ map Emitted ms\<rparr>"
  by (induction ms arbitrary: b) (simp_all add: doEmit_def record_effect_def)

lemma emitTxMsgs_eq: "emitTxMsgs b = b\<lparr>effects := effects b @ map Emitted (Msgs (tx b))\<rparr>"
  by (simp add: emitTxMsgs_def emitAll_eq)

lemma txState_fields:
  "tx (snd (txState c b)) = tx b"
  "effects (snd (txState c b)) = effects b"
  "app (snd (txState c b)) = app b"
  "repl (snd (txState c b)) = repl b"
  "beeColony (snd (txState c b)) = beeColony b"
  "beeID (snd (txState c b)) = beeID b"
  "state (snd (txState c b)) = Some (fst (txState c b))"
  by (simp_all add: txState_def split: option.splits)

lemma txState_BeginTx_fields:
  "tx (snd (txState_BeginTx c b)) = tx b"
  "effects (snd (txState_BeginTx c b)) = effects b @ [StateBegin]"
  "app (snd (txState_BeginTx c b)) = app b"
  "repl (snd (txState_BeginTx c b)) = repl b"
  "beeColony (snd (txState_BeginTx c b)) = beeColony b"
  "beeID (snd (txState_BeginTx c b)) = beeID b"
  by (simp_all add: txState_BeginTx_def record_effect_def txState_def Let_def
        split: prod.splits option.splits)

lemma doCommitTx_fields:
  "tx (snd (doCommitTx c b)) = Reset (tx b)"
  "effects (snd (doCommitTx c b)) = effects b @ map Emitted (Msgs (tx b)) @ [StateCommit]"
  "app (snd (doCommitTx c b)) = app b"
  "repl (snd (doCommitTx c b)) = repl b"
  "beeColony (snd (doCommitTx c b)) = beeColony b"
  "beeID (snd (doCommitTx c b)) = beeID b"
  "state (snd (doCommitTx c b)) = Some (snd (state_CommitTx c (fst (txState c b))))"
  by (simp_all add: doCommitTx_def txState_CommitTx_def emitTxMsgs_eq record_effect_def
        txState_def Let_def split: prod.splits option.splits)

lemma replicateTx_fields:
  "tx (snd (replicateTx c b)) = tx b"
  "effects (snd (replicateTx c b)) = effects b @ [Replicated (tx b)]"
  "app (snd (replicateTx c b)) = app b"
  "state (snd (replicateTx c b)) = state b"
  "beeColony (snd (replicateTx c b)) = beeColony b"
  "beeID (snd (replicateTx c b)) = beeID b"
  "fst (replicateTx c b) = fst (replicate c (tx b) (repl b))"
  by (simp_all add: replicateTx_def record_effect_def split: prod.splits)

lemma notifyCommitTx_fields:
  "tx (snd (notifyCommitTx c n b)) = tx b"
  "effects (snd (notifyCommitTx c n b)) = effects b @ [Notified n]"
  "app (snd (notifyCommitTx c n b)) = app b"
  "state (snd (notifyCommitTx c n b)) = state b"
  "beeColony (snd (notifyCommitTx c n b)) = beeColony b"
  "beeID (snd (notifyCommitTx c n b)) = beeID b"
  by (simp_all add: notifyCommitTx_def record_effect_def split: prod.splits)

lemma AbortTx_fields:
  "tx (snd (AbortTx c b)) = (if IsOpen (tx b) then Reset (tx b) else tx b)"
  "effects (snd (AbortTx c b)) = (if IsOpen (tx b) then effects b @ [StateAbort] else effects b)"
  "app (snd (AbortTx c b)) = app b"
  "repl (snd (AbortTx c b)) = repl b"
  "beeColony (snd (AbortTx c b)) = beeColony b"
  "beeID (snd (AbortTx c b)) = beeID b"
  "state (snd (AbortTx c b)) =
     (if IsOpen (tx b) then Some (snd (state_AbortTx c (fst (txState c b)))) else state b)"
  by (simp_all add: AbortTx_def txState_AbortTx_def record_effect_def txState_def Let_def
        split: prod.splits option.splits)

lemma emitted_append: "emitted (xs @ ys) = emitted xs @ emitted ys"
  by (induction xs rule: emitted.induct) simp_all

lemma emitted_map_Emitted: "emitted (map Emitted ms) = ms"
  by (induction ms) simp_all

lemma replicated_append: "replicated (xs @ ys) = replicated xs @ replicated ys"
  by (induction xs rule: replicated.induct) simp_all

lemma replicated_map_Emitted: "replicated (map Emitted ms) = []"
  by (induction ms) simp_all

lemma takeWhile_Emitted:
  "takeWhile (\<lambda>e. e \<noteq> StateCommit) (map Emitted ms @ StateCommit # es) = map Emitted ms"
  by (induction ms) simp_all

lemma since_append: "effects b' = effects b @ es \<Longrightarrow> since b b' = es"
  by (simp add: since_def)

lemma CommitTx_success_effects:
  assumes "IsOpen (tx b)" "CommitTx c b = (Returns None, b')"
  shows "\<exists>t. effects b' = effects b @
           (if ReplicationFactor (app b) < 2
            then map Emitted (Msgs (tx b)) @ [StateCommit, Replicated t, StateCommit, Notified (Seq (tx b))]
            else Replicated t # map Emitted (Msgs (tx b)) @ [StateCommit, Notified (Seq (tx b))])"
  using assms
  by (auto simp: CommitTx_def Let_def colonyUnsafe_def case_prod_beta glog_Fatal_def
        replicateTx_fields doCommitTx_fields notifyCommitTx_fields txState_fields Reset_def
      split: option.splits if_splits)

lemma CommitTx_replication_failure:
  assumes "IsOpen (tx b)" and "\<not> ReplicationFactor (app b) < 2"
    and "t = (tx b)\<lparr>Generation := ColonyGeneration (beeColony b), Ops := state_Tx c (fst (txState c b))\<rparr>"
    and "fst (replicate c t (repl b)) = Some err"
  shows "fst (CommitTx c b) = Returns (Some err)"
    and "effects (snd (CommitTx c b)) = effects b @ [Replicated t, StateAbort]"
    and "tx (snd (CommitTx c b)) = Reset t"
    and "state (snd (CommitTx c b)) = Some (snd (state_AbortTx c (fst (txState c b))))"
  using assms
  by (auto simp: CommitTx_def Let_def colonyUnsafe_def case_prod_beta glog_Fatal_def
        replicateTx_fields AbortTx_fields txState_fields Reset_def IsOpen_def txState_def
      split: option.splits if_splits)

lemma CommitTx_fast_path_effects:
  assumes "IsOpen (tx b)" and "ReplicationFactor (app b) < 2"
  shows "\<exists>t rest. effects (snd (CommitTx c b)) =
           effects b @ map Emitted (Msgs (tx b)) @ [StateCommit, Replicated t] @ rest"
  using assms
  by (auto simp: CommitTx_def Let_def colonyUnsafe_def case_prod_beta glog_Fatal_def
        replicateTx_fields AbortTx_fields txState_fields doCommitTx_fields notifyCommitTx_fields
        Reset_def IsOpen_def
      split: option.splits if_splits)

lemma CommitTx_fast_path_replicated:
  assumes "IsOpen (tx b)" and "ReplicationFactor (app b) < 2"
  shows "replicated (since b (snd (CommitTx c b))) \<noteq> []"
proof -
  from CommitTx_fast_path_effects [OF assms] obtain t rest where
    "effects (snd (CommitTx c b)) =
       effects b @ map Emitted (Msgs (tx b)) @ [StateCommit, Replicated t] @ rest"
    by blast
  from since_append [OF this] show ?thesis
    by (simp add: replicated_append replicated_map_Emitted)
qed

lemma CommitTx_Seq: "Seq (tx (snd (CommitTx c b))) = Seq (tx b)"
  by (auto simp: CommitTx_def Let_def colonyUnsafe_def case_prod_beta glog_Fatal_def
        replicateTx_fields AbortTx_fields txState_fields doCommitTx_fields notifyCommitTx_fields
        Reset_def IsOpen_def
      split: option.splits if_splits)

lemma BeginTx_Seq:
  "Seq (tx (snd (BeginTx c b))) = (if fst (BeginTx c b) = None then Seq (tx b) + 1 else Seq (tx b))"
  by (auto simp: BeginTx_def case_prod_beta txState_BeginTx_fields split: option.splits)

lemma bufferOrEmit_Seq: "Seq (tx (bufferOrEmit b m)) = Seq (tx b)"
  by (simp add: bufferOrEmit_def doEmit_def record_effect_def AddMsg_def)

lemma step_Seq:
  "Seq (tx (snd (step c k b)))
     = (if k = CallBeginTx \<and> fst (step c k b) = Returns None then Seq (tx b) + 1 else Seq (tx b))"
proof (cases k)
  case CallBeginTx
  then show ?thesis using BeginTx_Seq [of c b] by (simp add: case_prod_beta)
next
  case CallCommitTx
  then show ?thesis by (simp add: CommitTx_Seq)
next
  case CallAbortTx
  then show ?thesis by (simp add: case_prod_beta AbortTx_fields Reset_def)
next
  case (CallEmit d)
  then show ?thesis by (simp add: Emit_def bufferOrEmit_Seq)
next
  case (CallSendToBee d to)
  then show ?thesis by (simp add: SendToBee_def bufferOrEmit_Seq)
next
  case (CallSendToCellKey d to dk)
  then show ?thesis by (simp add: SendToCellKey_def and_then_def glog_Fatal_def)
next
  case (CallReplyTo m d)
  then show ?thesis by (simp add: ReplyTo_def SendToBee_def bufferOrEmit_Seq)
qed

lemma begun_seqs_Cons:
  "begun_seqs ((k, r, b') # h)
     = (if k = CallBeginTx \<and> r = Returns None then Seq (tx b') # begun_seqs h else begun_seqs h)"
  by (cases "((k, r, b') # h)" rule: begun_seqs.cases) auto

lemma count_begins_Cons:
  "count_begins (k # ks) = (if k = CallBeginTx then Suc (count_begins ks) else count_begins ks)"
  by (cases k) simp_all

lemma begun_seqs_run_Cons:
  "begun_seqs (run c (k # ks) b) =
     (if k = CallBeginTx \<and> fst (step c k b) = Returns None
      then Seq (tx (snd (step c k b))) # begun_seqs (run c ks (snd (step c k b)))
      else if fst (step c k b) = Fatal then []
      else begun_seqs (run c ks (snd (step c k b))))"
proof (cases "step c k b")
  case (Pair r b')
  then show ?thesis
    by (cases r) (auto simp: begun_seqs_Cons simp del: step.simps)
qed

lemma word_succ_less:
  fixes x :: "64 word"
  assumes "unat x + 1 < 2 ^ 64"
  shows "x < x + 1" and "unat (x + 1) = unat x + 1"
  using assms by (simp_all add: word_less_nat_alt unat_word_ariths)

lemma begun_seqs_increase:
  "unat (Seq (tx b)) + count_begins ks < 2 ^ 64 \<Longrightarrow>
     (\<forall>q \<in> set (begun_seqs (run c ks b)). Seq (tx b) < q)
     \<and> sorted_wrt (<) (begun_seqs (run c ks b))"
proof (induction ks arbitrary: b)
  case Nil
  then show ?case by simp
next
  case (Cons k ks)
  let ?b' = "snd (step c k b)"
  show ?case
  proof (cases "k = CallBeginTx \<and> fst (step c k b) = Returns None")
    case True
    with Cons.prems have bound: "unat (Seq (tx b)) + 1 < 2 ^ 64"
      and rest: "unat (Seq (tx b) + 1) + count_begins ks < 2 ^ 64"
      using word_succ_less(2) [of "Seq (tx b)"] by (simp_all add: count_begins_Cons)
    have sq: "Seq (tx ?b') = Seq (tx b) + 1"
      by (metis True step_Seq)
    from Cons.IH [of ?b'] rest sq
    have ih: "\<forall>q \<in> set (begun_seqs (run c ks ?b')). Seq (tx ?b') < q"
      "sorted_wrt (<) (begun_seqs (run c ks ?b'))"
      by simp_all
    have lt: "Seq (tx b) < Seq (tx ?b')"
      using word_succ_less(1) [OF bound] sq by simp
    from True ih lt show ?thesis
      by (auto simp: begun_seqs_run_Cons simp del: run.simps step.simps)
  next
    case False
    have sq: "Seq (tx ?b') = Seq (tx b)"
      by (metis False step_Seq)
    from Cons.prems have "unat (Seq (tx ?b')) + count_begins ks < 2 ^ 64"
      by (simp add: sq count_begins_Cons split: if_splits)
    from Cons.IH [OF this] sq False show ?thesis
      by (auto simp: begun_seqs_run_Cons simp del: run.simps step.simps)
  qed
qed

subsection \<open>Committing a transaction\<close>

text \<open>
  C1. When CommitTx fails on replication it returns the replication error and aborts
  the transaction; no buffered message is forwarded and no state mutation is
  observable. For an app with a replication factor of 2 or more this is
  \<open>CommitTx_replication_failure\<close> above. It does not hold for an app whose
  replication factor is below 2: CommitTx first runs \<open>doCommitTx\<close> and then goes on to
  replicate all the same. Here the bee has replication factor 1 and an Open
  transaction with the messages A and B buffered and the key x written; the
  replication collaborator fails. CommitTx returns the replication error, and yet A
  and B have been handed to the hive and the write of x is committed.
\<close>

theorem CommitTx_fast_path_replication_failure:
  "fst (CommitTx failing_collab (open_bee 1)) = Returns (Some (Err ''no quorum''))
   \<and> emitted (since (open_bee 1) (snd (CommitTx failing_collab (open_bee 1))))
       = [plain_msg ''A'' bee_A nilBeeID, plain_msg ''B'' bee_A bee_B]
   \<and> state (snd (CommitTx failing_collab (open_bee 1)))
       = Some \<lparr>committed = [(''x'', ''0''), (''x'', ''1'')], pending = []\<rparr>"
  by (simp add: CommitTx_def Let_def case_prod_beta replicateTx_fields doCommitTx_fields
        AbortTx_fields txState_fields since_def emitted_append emitted_map_Emitted
        IsOpen_def Reset_def open_bee_def sample_bee_def failing_collab_def sample_collab_def
        txState_def kv_CommitTx_def colonyUnsafe_def)

text \<open>
  C2. With a replication factor below 2, CommitTx on an Open transaction emits the
  buffered messages in order and commits the state, but it does not stop there: the
  transaction, reset by then, is submitted to the replication collaborator, the state
  layer is asked to commit a second time, and a commit notification is sent. Here the
  bee has replication factor 1 and the messages A and B buffered; the collaborator's
  count of accepted transactions goes from 0 to 1. \<open>CommitTx_fast_path_replicated\<close>
  above has the same for every such bee.
\<close>

theorem CommitTx_fast_path_replicates:
  "fst (CommitTx sample_collab (open_bee 1)) = Returns None
   \<and> since (open_bee 1) (snd (CommitTx sample_collab (open_bee 1)))
       = [Emitted (plain_msg ''A'' bee_A nilBeeID), Emitted (plain_msg ''B'' bee_A bee_B),
          StateCommit,
          Replicated \<lparr>Status = TxClosed, Generation = 3, Seq = 1, Msgs = [], Ops = []\<rparr>,
          StateCommit, Notified 1]
   \<and> repl (snd (CommitTx sample_collab (open_bee 1))) = 1"
  by (simp add: CommitTx_def Let_def case_prod_beta replicateTx_fields doCommitTx_fields
        notifyCommitTx_fields
        AbortTx_fields txState_fields since_def emitted_append emitted_map_Emitted
        IsOpen_def Reset_def open_bee_def sample_bee_def sample_collab_def
        txState_def kv_CommitTx_def replicateTx_def notifyCommitTx_def record_effect_def
        doCommitTx_def txState_CommitTx_def emitTxMsgs_eq colonyUnsafe_def)

text \<open>
  C3. When CommitTx on an Open transaction succeeds (returns nil), the log of effects of
  before the call is extended; the messages handed to the hive during the call are
  exactly the buffered messages, each once and in buffering order; all of them are
  handed over before the first commit of the state layer; and the state layer does
  commit.
\<close>

theorem CommitTx_success_forwards_once:
  assumes "IsOpen (tx b)" and "CommitTx c b = (Returns None, b')"
  shows "take (length (effects b)) (effects b') = effects b
       \<and> emitted (since b b') = Msgs (tx b)
       \<and> emitted (takeWhile (\<lambda>e. e \<noteq> StateCommit) (since b b')) = Msgs (tx b)
       \<and> StateCommit \<in> set (since b b')"
proof -
  from CommitTx_success_effects [OF assms] obtain t where
    eff: "effects b' = effects b @
           (if ReplicationFactor (app b) < 2
            then map Emitted (Msgs (tx b)) @ [StateCommit, Replicated t, StateCommit, Notified (Seq (tx b))]
            else Replicated t # map Emitted (Msgs (tx b)) @ [StateCommit, Notified (Seq (tx b))])"
    by blast
  have pre: "take (length (effects b)) (effects b') = effects b"
    by (simp add: eff)
  note s = since_append [OF eff]
  show ?thesis
  proof (cases "ReplicationFactor (app b) < 2")
    case True
    then show ?thesis using pre
      by (simp add: s emitted_append emitted_map_Emitted takeWhile_Emitted)
  next
    case False
    then show ?thesis using pre
      by (simp add: s emitted_append emitted_map_Emitted takeWhile_Emitted)
  qed
qed

theorem CommitTx_success_forwards_once_witness:
  "IsOpen (tx (open_bee 3))
   \<and> fst (CommitTx sample_collab (open_bee 3)) = Returns None
   \<and> emitted (since (open_bee 3) (snd (CommitTx sample_collab (open_bee 3))))
       = [plain_msg ''A'' bee_A nilBeeID, plain_msg ''B'' bee_A bee_B]"
proof -
  have o: "IsOpen (tx (open_bee 3))"
    by (simp add: IsOpen_def open_bee_def)
  have r: "fst (CommitTx sample_collab (open_bee 3)) = Returns None"
    by (simp add: CommitTx_def Let_def case_prod_beta replicateTx_fields doCommitTx_fields
          txState_fields IsOpen_def open_bee_def sample_bee_def sample_collab_def
          replicateTx_def doCommitTx_def txState_CommitTx_def txState_def kv_CommitTx_def)
  then have e: "CommitTx sample_collab (open_bee 3)
      = (Returns None, snd (CommitTx sample_collab (open_bee 3)))"
    by (metis prod.collapse)
  from CommitTx_success_forwards_once [OF o e] o r show ?thesis
    by (simp add: open_bee_def)
qed

subsection \<open>Beginning a transaction\<close>

text \<open>
  C4. BeginTx while a transaction is Open returns an error and leaves the bee, and so
  the Status, Generation, Seq, Msgs and Ops of its transaction, as they were. A BeginTx
  that returns nil found no transaction Open, and has set Status to Open and Generation
  to the generation of the bee's colony and incremented Seq; Msgs and Ops are
  unchanged.
\<close>

theorem BeginTx_conflict_and_success:
  "(IsOpen (tx b) \<longrightarrow> BeginTx c b = (Some (Err ''Another tx is open.''), b))
   \<and> (BeginTx c b = (None, b') \<longrightarrow>
        \<not> IsOpen (tx b)
        \<and> Status (tx b') = TxOpen
        \<and> Generation (tx b') = ColonyGeneration (beeColony b)
        \<and> Seq (tx b') = Seq (tx b) + 1
        \<and> Msgs (tx b') = Msgs (tx b)
        \<and> Ops (tx b') = Ops (tx b))"
  by (auto simp: BeginTx_def case_prod_beta txState_BeginTx_fields
      split: option.splits if_splits)

theorem BeginTx_conflict_and_success_witness:
  "IsOpen (tx (open_bee 1))
   \<and> BeginTx sample_collab (open_bee 1) = (Some (Err ''Another tx is open.''), open_bee 1)
   \<and> fst (BeginTx sample_collab (sample_bee 1)) = None
   \<and> Status (tx (snd (BeginTx sample_collab (sample_bee 1)))) = TxOpen
   \<and> Generation (tx (snd (BeginTx sample_collab (sample_bee 1)))) = 3
   \<and> Seq (tx (snd (BeginTx sample_collab (sample_bee 1)))) = 1"
proof -
  have o: "IsOpen (tx (open_bee 1))"
    by (simp add: IsOpen_def open_bee_def)
  have n: "\<not> IsOpen (tx (sample_bee 1))"
    by (simp add: IsOpen_def sample_bee_def)
  have k: "fst (state_BeginTx sample_collab s) = None" for s
    by (simp add: sample_collab_def kv_BeginTx_def)
  have r: "fst (BeginTx sample_collab (sample_bee 1)) = None"
    using n by (simp add: BeginTx_def case_prod_beta txState_BeginTx_def Let_def k
        split: option.splits)
  then have e: "BeginTx sample_collab (sample_bee 1)
      = (None, snd (BeginTx sample_collab (sample_bee 1)))"
    by (metis prod.collapse)
  have g: "ColonyGeneration (beeColony (sample_bee 1)) = 3" "Seq (tx (sample_bee 1)) = 0"
    by (simp_all add: sample_bee_def)
  from BeginTx_conflict_and_success [of "open_bee 1" sample_collab] o
  have 1: "BeginTx sample_collab (open_bee 1) = (Some (Err ''Another tx is open.''), open_bee 1)"
    by blast
  from BeginTx_conflict_and_success [of "sample_bee 1" sample_collab
      "snd (BeginTx sample_collab (sample_bee 1))"] e
  have 2: "Status (tx (snd (BeginTx sample_collab (sample_bee 1)))) = TxOpen
    \<and> Generation (tx (snd (BeginTx sample_collab (sample_bee 1)))) = ColonyGeneration (beeColony (sample_bee 1))
    \<and> Seq (tx (snd (BeginTx sample_collab (sample_bee 1)))) = Seq (tx (sample_bee 1)) + 1"
    by blast
  show ?thesis using o r 1 2 by (simp add: g)
qed

text \<open>
  C5, as amended. No call other than BeginTx changes Seq; a successful BeginTx adds one
  to it, modulo \<open>2 ^ 64\<close>; and as long as the counter does not wrap around during a
  sequence of calls (the Seq at the start plus the number of BeginTx calls stays below
  \<open>2 ^ 64\<close>), the Seq of every transaction begun in the sequence is strictly greater
  than the Seq at the start and than the Seq of every transaction begun before it.
\<close>

theorem Seq_increases_until_wrap:
  "(k \<noteq> CallBeginTx \<longrightarrow> Seq (tx (snd (step c k b))) = Seq (tx b))
   \<and> (fst (BeginTx c b) = None \<longrightarrow> Seq (tx (snd (BeginTx c b))) = Seq (tx b) + 1)
   \<and> (unat (Seq (tx b)) + count_begins ks < 2 ^ 64 \<longrightarrow>
        sorted_wrt (<) (Seq (tx b) # begun_seqs (run c ks b)))"
  using begun_seqs_increase [of b ks c]
  by (simp add: step_Seq BeginTx_Seq)

theorem Seq_increases_until_wrap_witness:
  "CallCommitTx \<noteq> (CallBeginTx :: string call)
   \<and> Seq (tx (snd (step sample_collab CallCommitTx (sample_bee 1)))) = Seq (tx (sample_bee 1))
   \<and> fst (BeginTx sample_collab (sample_bee 1)) = None
   \<and> Seq (tx (snd (BeginTx sample_collab (sample_bee 1)))) = 1
   \<and> unat (Seq (tx (sample_bee 1))) + count_begins [CallBeginTx, CallAbortTx, CallBeginTx :: string call]
       < 2 ^ 64
   \<and> sorted_wrt (<) (Seq (tx (sample_bee 1))
         # begun_seqs (run sample_collab [CallBeginTx, CallAbortTx, CallBeginTx] (sample_bee 1)))"
proof -
  have n: "\<not> IsOpen (tx (sample_bee 1))"
    by (simp add: IsOpen_def sample_bee_def)
  have k: "fst (state_BeginTx sample_collab s) = None" for s
    by (simp add: sample_collab_def kv_BeginTx_def)
  have r: "fst (BeginTx sample_collab (sample_bee 1)) = None"
    using n by (simp add: BeginTx_def case_prod_beta txState_BeginTx_def Let_def k
        split: option.splits)
  have z: "Seq (tx (sample_bee 1)) = 0"
    by (simp add: sample_bee_def)
  have h: "unat (Seq (tx (sample_bee 1)))
      + count_begins [CallBeginTx, CallAbortTx, CallBeginTx :: string call] < 2 ^ 64"
    by (simp add: z)
  note t = Seq_increases_until_wrap [of CallCommitTx sample_collab "sample_bee 1"
      "[CallBeginTx, CallAbortTx, CallBeginTx]"]
  from t have 1: "Seq (tx (snd (step sample_collab CallCommitTx (sample_bee 1))))
      = Seq (tx (sample_bee 1))"
    by blast
  from t r have 2: "Seq (tx (snd (BeginTx sample_collab (sample_bee 1))))
      = Seq (tx (sample_bee 1)) + 1"
    by blast
  from t h have 3: "sorted_wrt (<) (Seq (tx (sample_bee 1))
         # begun_seqs (run sample_collab [CallBeginTx, CallAbortTx, CallBeginTx] (sample_bee 1)))"
    by blast
  from 2 have 4: "Seq (tx (snd (BeginTx sample_collab (sample_bee 1)))) = 1"
    by (simp add: z)
  show ?thesis using 1 r 4 h 3 by blast
qed

text \<open>
  C5 as stated fails where the counter wraps around. A bee whose Seq is \<open>2 ^ 64 - 2\<close>
  begins a transaction, aborts it and begins another: the first gets the Seq
  \<open>2 ^ 64 - 1\<close> and the second the Seq 0, which is not greater.
\<close>

theorem Seq_wraps_counterexample:
  "begun_seqs (run sample_collab [CallBeginTx, CallAbortTx, CallBeginTx] late_bee) = [- 1, 0]
   \<and> \<not> sorted_wrt (<) (begun_seqs (run sample_collab [CallBeginTx, CallAbortTx, CallBeginTx] late_bee))"
  by (simp add: BeginTx_def AbortTx_def txState_BeginTx_def txState_AbortTx_def txState_def
        record_effect_def IsOpen_def Reset_def Let_def late_bee_def sample_bee_def
        sample_collab_def kv_BeginTx_def kv_AbortTx_def)

subsection \<open>Emitting and replying\<close>

text \<open>
  C6. Emit and SendToBee construct the message from the data, the bee's id and the
  addressee (the nil BeeID for Emit). If the bee's transaction is Open the message goes
  to the end of the transaction's Msgs and nothing is handed to the hive; otherwise the
  message is handed to the hive at once and the transaction is unchanged.
\<close>

theorem bufferOrEmit_Emit_SendToBee:
  "(IsOpen (tx b) \<longrightarrow>
      Emit c b d = b\<lparr>tx := (tx b)\<lparr>Msgs := Msgs (tx b) @ [newMsgFromData c d (beeID b) nilBeeID]\<rparr>\<rparr>
      \<and> SendToBee c b d to
           = b\<lparr>tx := (tx b)\<lparr>Msgs := Msgs (tx b) @ [newMsgFromData c d (beeID b) to]\<rparr>\<rparr>
      \<and> effects (Emit c b d) = effects b
      \<and> effects (SendToBee c b d to) = effects b)
   \<and> (\<not> IsOpen (tx b) \<longrightarrow>
      Emit c b d = b\<lparr>effects := effects b @ [Emitted (newMsgFromData c d (beeID b) nilBeeID)]\<rparr>
      \<and> SendToBee c b d to
           = b\<lparr>effects := effects b @ [Emitted (newMsgFromData c d (beeID b) to)]\<rparr>
      \<and> tx (Emit c b d) = tx b
      \<and> tx (SendToBee c b d to) = tx b)"
  by (simp add: Emit_def SendToBee_def bufferOrEmit_def doEmit_def record_effect_def
        AddMsg_def id_of_def)

theorem bufferOrEmit_Emit_SendToBee_witness:
  "IsOpen (tx (open_bee 1))
   \<and> Msgs (tx (SendToBee sample_collab (open_bee 1) ''C'' bee_B))
       = [plain_msg ''A'' bee_A nilBeeID, plain_msg ''B'' bee_A bee_B, plain_msg ''C'' bee_A bee_B]
   \<and> effects (SendToBee sample_collab (open_bee 1) ''C'' bee_B) = [StateBegin]
   \<and> \<not> IsOpen (tx (sample_bee 1))
   \<and> effects (Emit sample_collab (sample_bee 1) ''C'') = [Emitted (plain_msg ''C'' bee_A nilBeeID)]
   \<and> Msgs (tx (Emit sample_collab (sample_bee 1) ''C'')) = []"
proof -
  have o: "IsOpen (tx (open_bee 1))"
    by (simp add: IsOpen_def open_bee_def)
  have n: "\<not> IsOpen (tx (sample_bee 1))"
    by (simp add: IsOpen_def sample_bee_def)
  have f: "newMsgFromData sample_collab = plain_msg"
    by (simp add: sample_collab_def)
  have g: "beeID (open_bee 1) = bee_A" "beeID (sample_bee 1) = bee_A"
    "Msgs (tx (open_bee 1)) = [plain_msg ''A'' bee_A nilBeeID, plain_msg ''B'' bee_A bee_B]"
    "effects (open_bee 1) = [StateBegin]" "effects (sample_bee 1) = []"
    "Msgs (tx (sample_bee 1)) = []"
    by (simp_all add: open_bee_def sample_bee_def)
  from bufferOrEmit_Emit_SendToBee [of "open_bee 1" sample_collab "''C''" bee_B] o
  have 1: "SendToBee sample_collab (open_bee 1) ''C'' bee_B
      = (open_bee 1)\<lparr>tx := (tx (open_bee 1))\<lparr>Msgs := Msgs (tx (open_bee 1))
           @ [newMsgFromData sample_collab ''C'' (beeID (open_bee 1)) bee_B]\<rparr>\<rparr>"
    by blast
  from bufferOrEmit_Emit_SendToBee [of "sample_bee 1" sample_collab "''C''" bee_B] n
  have 2: "Emit sample_collab (sample_bee 1) ''C''
      = (sample_bee 1)\<lparr>effects := effects (sample_bee 1)
           @ [Emitted (newMsgFromData sample_collab ''C'' (beeID (sample_bee 1)) nilBeeID)]\<rparr>"
    by blast
  show ?thesis using o n by (simp add: 1 2 f g)
qed

text \<open>
  C7. ReplyTo on a message marked NoReply returns an error and leaves the bee as it
  was: nothing is sent and nothing is buffered. On any other message it returns nil and
  is SendToBee of the reply data to the message's From bee: handed to the hive at once
  when no transaction is Open, buffered in the Open transaction otherwise.
\<close>

theorem ReplyTo_NoReply:
  "(NoReply m \<longrightarrow>
      ReplyTo c b m d = (Some (Err ''Cannot reply to this message.''), b))
   \<and> (\<not> NoReply m \<longrightarrow>
      ReplyTo c b m d = (None, SendToBee c b d (From m))
      \<and> (\<not> IsOpen (tx b) \<longrightarrow>
            snd (ReplyTo c b m d)
              = b\<lparr>effects := effects b @ [Emitted (newMsgFromData c d (beeID b) (MsgFrom m))]\<rparr>)
      \<and> (IsOpen (tx b) \<longrightarrow>
            snd (ReplyTo c b m d)
              = b\<lparr>tx := (tx b)\<lparr>Msgs := Msgs (tx b) @ [newMsgFromData c d (beeID b) (MsgFrom m)]\<rparr>\<rparr>))"
  by (simp add: ReplyTo_def SendToBee_def bufferOrEmit_def doEmit_def record_effect_def
        AddMsg_def id_of_def From_def)

theorem ReplyTo_NoReply_witness:
  "NoReply silent_msg
   \<and> ReplyTo sample_collab (sample_bee 1) silent_msg ''pong''
       = (Some (Err ''Cannot reply to this message.''), sample_bee 1)
   \<and> \<not> NoReply (plain_msg ''ping'' bee_B bee_A)
   \<and> \<not> IsOpen (tx (sample_bee 1))
   \<and> fst (ReplyTo sample_collab (sample_bee 1) (plain_msg ''ping'' bee_B bee_A) ''pong'') = None
   \<and> effects (snd (ReplyTo sample_collab (sample_bee 1) (plain_msg ''ping'' bee_B bee_A) ''pong''))
       = [Emitted (plain_msg ''pong'' bee_A bee_B)]
   \<and> IsOpen (tx (open_bee 1))
   \<and> Msgs (tx (snd (ReplyTo sample_collab (open_bee 1) (plain_msg ''ping'' bee_B bee_A) ''pong'')))
       = [plain_msg ''A'' bee_A nilBeeID, plain_msg ''B'' bee_A bee_B, plain_msg ''pong'' bee_A bee_B]"
proof -
  have s: "NoReply silent_msg"
    by (simp add: NoReply_def silent_msg_def)
  have p: "\<not> NoReply (plain_msg ''ping'' bee_B bee_A)"
    "MsgFrom (plain_msg ''ping'' bee_B bee_A) = bee_B"
    by (simp_all add: NoReply_def plain_msg_def)
  have o: "IsOpen (tx (open_bee 1))"
    by (simp add: IsOpen_def open_bee_def)
  have n: "\<not> IsOpen (tx (sample_bee 1))"
    by (simp add: IsOpen_def sample_bee_def)
  have f: "newMsgFromData sample_collab = plain_msg"
    by (simp add: sample_collab_def)
  have g: "beeID (open_bee 1) = bee_A" "beeID (sample_bee 1) = bee_A"
    "Msgs (tx (open_bee 1)) = [plain_msg ''A'' bee_A nilBeeID, plain_msg ''B'' bee_A bee_B]"
    "effects (sample_bee 1) = []"
    by (simp_all add: open_bee_def sample_bee_def)
  from ReplyTo_NoReply [of silent_msg sample_collab "sample_bee 1" "''pong''"] s
  have 1: "ReplyTo sample_collab (sample_bee 1) silent_msg ''pong''
       = (Some (Err ''Cannot reply to this message.''), sample_bee 1)"
    by blast
  from ReplyTo_NoReply [of "plain_msg ''ping'' bee_B bee_A" sample_collab "sample_bee 1" "''pong''"]
    p(1) n
  have c: "ReplyTo sample_collab (sample_bee 1) (plain_msg ''ping'' bee_B bee_A) ''pong''
      = (None, SendToBee sample_collab (sample_bee 1) ''pong'' (From (plain_msg ''ping'' bee_B bee_A)))
    \<and> snd (ReplyTo sample_collab (sample_bee 1) (plain_msg ''ping'' bee_B bee_A) ''pong'')
      = (sample_bee 1)\<lparr>effects := effects (sample_bee 1) @ [Emitted (newMsgFromData sample_collab ''pong''
           (beeID (sample_bee 1)) (MsgFrom (plain_msg ''ping'' bee_B bee_A)))]\<rparr>"
    by blast
  from c [THEN conjunct1]
  have 2: "fst (ReplyTo sample_collab (sample_bee 1) (plain_msg ''ping'' bee_B bee_A) ''pong'') = None"
    by simp
  note 3 = c [THEN conjunct2]
  from ReplyTo_NoReply [of "plain_msg ''ping'' bee_B bee_A" sample_collab "open_bee 1" "''pong''"]
    p(1) o
  have 4: "snd (ReplyTo sample_collab (open_bee 1) (plain_msg ''ping'' bee_B bee_A) ''pong'')
      = (open_bee 1)\<lparr>tx := (tx (open_bee 1))\<lparr>Msgs := Msgs (tx (open_bee 1)) @ [newMsgFromData sample_collab ''pong''
           (beeID (open_bee 1)) (MsgFrom (plain_msg ''ping'' bee_B bee_A))]\<rparr>\<rparr>"
    by blast
  show ?thesis using s p(1) o n 1 2 by (simp add: 3 4 f g p(2))
qed

subsection \<open>CommitTx without a transaction, and SendToCellKey\<close>

text \<open>
  C9. CommitTx on a bee with no Open transaction returns nil and changes nothing: the
  transaction record, the state, the replication collaborator and the log of effects
  (no message sent, no replication attempted) are those of before the call.
\<close>

theorem CommitTx_not_open:
  "\<not> IsOpen (tx b) \<Longrightarrow> CommitTx c b = (Returns None, b)"
  by (simp add: CommitTx_def)

theorem CommitTx_not_open_witness:
  "\<not> IsOpen (tx (sample_bee 1))
   \<and> CommitTx sample_collab (sample_bee 1) = (Returns None, sample_bee 1)"
  using CommitTx_not_open [of "sample_bee 1" sample_collab]
  by (simp add: IsOpen_def sample_bee_def)

text \<open>
  C10. SendToCellKey ends the program, whatever its arguments and whether or not a
  transaction is Open: the bee is as before the call, so no message has been handed
  to the hive and none has been buffered.
\<close>

theorem SendToCellKey_fatal:
  "SendToCellKey c b d to dk = (Fatal, b)
   \<and> emitted (since b (snd (SendToCellKey c b d to dk))) = []
   \<and> Msgs (tx (snd (SendToCellKey c b d to dk))) = Msgs (tx b)"
  by (simp add: SendToCellKey_def and_then_def glog_Fatal_def since_def)

section \<open>Properties of the network server\<close>

lemma handleConn_loop_only_enques:
  "e \<in> set (handleConn_loop s rid rcvr handlers body) \<Longrightarrow> \<exists>m h. e = Enque rcvr m h"
  by (induction s rid rcvr handlers body rule: handleConn_loop.induct)
     (auto simp: Let_def split: option.splits)

text \<open>
  C8. When the RcvrId of a connection does not resolve to a receiver (no such actor, or
  the actor's control loop finds no receiver), the server only closes the connection:
  nothing is written back and nothing is put on any queue. When it resolves, the first
  thing the server does is to write the acknowledgment \<open>true\<close>; after that it only
  puts decoded messages on that receiver's queue, and closes the connection at the end.
\<close>

theorem handleConn_ack_only_when_resolved:
  "(resolves s (first_RcvrId hello) = None \<longrightarrow> handleConn s hello body = [Closed])
   \<and> (\<forall>rcvr. resolves s (first_RcvrId hello) = Some rcvr \<longrightarrow>
        (\<exists>es. handleConn s hello body = Wrote True # es @ [Closed]
              \<and> (\<forall>e \<in> set es. \<exists>m h. e = Enque rcvr m h)))"
  by (auto simp: handleConn_def resolves_def Let_def
      split: sum.splits option.splits dest: handleConn_loop_only_enques)

theorem handleConn_ack_only_when_resolved_witness:
  "resolves sample_stage (first_RcvrId (Some \<lparr>ActorName = ''Counter'', RcvrId_Id = 999\<rparr>)) = None
   \<and> handleConn sample_stage (Some \<lparr>ActorName = ''Counter'', RcvrId_Id = 999\<rparr>) [Inr ''Incr'']
       = [Closed]
   \<and> resolves sample_stage (first_RcvrId (Some \<lparr>ActorName = ''Counter'', RcvrId_Id = 7\<rparr>))
       = Some ''bee7''
   \<and> hd (handleConn sample_stage (Some \<lparr>ActorName = ''Counter'', RcvrId_Id = 7\<rparr>) [Inr ''Incr''])
       = Wrote True"
proof -
  have u: "resolves sample_stage (first_RcvrId (Some \<lparr>ActorName = ''Counter'', RcvrId_Id = 999\<rparr>)) = None"
    by (simp add: resolves_def first_RcvrId_def sample_stage_def)
  have r: "resolves sample_stage (first_RcvrId (Some \<lparr>ActorName = ''Counter'', RcvrId_Id = 7\<rparr>))
       = Some ''bee7''"
    by (simp add: resolves_def first_RcvrId_def sample_stage_def)
  from handleConn_ack_only_when_resolved
    [of sample_stage "Some \<lparr>ActorName = ''Counter'', RcvrId_Id = 999\<rparr>" "[Inr ''Incr'']"] u
  have 1: "handleConn sample_stage (Some \<lparr>ActorName = ''Counter'', RcvrId_Id = 999\<rparr>) [Inr ''Incr'']
       = [Closed]"
    by blast
  from handleConn_ack_only_when_resolved
    [of sample_stage "Some \<lparr>ActorName = ''Counter'', RcvrId_Id = 7\<rparr>" "[Inr ''Incr'']"] r
  obtain es where "handleConn sample_stage (Some \<lparr>ActorName = ''Counter'', RcvrId_Id = 7\<rparr>) [Inr ''Incr'']
      = Wrote True # es @ [Closed]"
    by blast
  then have 2: "hd (handleConn sample_stage (Some \<lparr>ActorName = ''Counter'', RcvrId_Id = 7\<rparr>) [Inr ''Incr''])
       = Wrote True"
    by simp
  show ?thesis using u r 1 2 by blast
qed

text \<open>
  A session with Counter's receiver 7: two Incr messages reach both handlers that
  Counter registered for Incr, in decode order; the failed Decode ends the session.
\<close>

lemma handleConn_scenario_A:
  "handleConn sample_stage (Some \<lparr>ActorName = ''Counter'', RcvrId_Id = 7\<rparr>)
      [Inr ''Incr'', Inr ''Incr'', Inl (Err ''EOF''), Inr ''Incr'']
   = [Wrote True, Enque ''bee7'' ''Incr'' ''h1'', Enque ''bee7'' ''Incr'' ''h3'',
      Enque ''bee7'' ''Incr'' ''h1'', Enque ''bee7'' ''Incr'' ''h3'', Closed]"
  by (simp add: handleConn_def first_RcvrId_def sample_stage_def Let_def)

end
